theory Spec2Isabelle
  imports Main
begin

section \<open>Source locations, types and diagnostics\<close>

text \<open>
  A \<^verbatim>\<open>SourceLocation\<close> is an opaque position; the value 0 is the invalid location
  (\<^verbatim>\<open>SourceLocation::isValid\<close> is "ID is not 0").
\<close>

type_synonym SourceLocation = nat

definition isValid :: "SourceLocation \<Rightarrow> bool" where
  "isValid L = (L \<noteq> 0)"

record SourceRange =
  getBegin :: SourceLocation
  getEnd :: SourceLocation

text \<open>
  A type, as seen through the three queries the program makes of it. Whether a type is
  literal is not computed by this program: it is the answer of the semantic service, kept
  here as a field of the type.
\<close>

record QualType =
  TypeName :: string
  isDependentType :: bool
  isLiteralType :: bool
  isVariablyModifiedType :: bool

datatype Level = Note | Remark | Warning | Error

datatype DiagID =
    err_constexpr_vla
  | warn_cxx11_compat_constexpr_type_definition
  | ext_constexpr_type_definition
  | err_constexpr_local_var_static
  | err_constexpr_local_var_non_literal_type
  | err_constexpr_local_var_no_init
  | warn_cxx11_compat_constexpr_local_var
  | ext_constexpr_local_var
  | err_constexpr_body_invalid_stmt
  | err_constexpr_non_literal_param
  | sema_other nat
  | CustomDiagID Level string

text \<open>The arguments streamed into a diagnostic with \<^verbatim>\<open><<\<close>.\<close>

datatype DiagArg =
    ArgRange SourceRange
  | ArgType QualType
  | ArgBool bool
  | ArgUInt nat

record FixItHint =
  InsertionLoc :: SourceLocation
  CodeToInsert :: string

definition CreateInsertion :: "SourceLocation \<Rightarrow> string \<Rightarrow> FixItHint" where
  "CreateInsertion L Code = \<lparr>InsertionLoc = L, CodeToInsert = Code\<rparr>"

record Diagnostic =
  DiagLoc :: SourceLocation
  DiagId :: DiagID
  DiagArgs :: "DiagArg list"
  FixIts :: "FixItHint list"

section \<open>The mutable state of a run\<close>

text \<open>
  The program mutates two things: the constexpr flag of function declarations
  (\<^verbatim>\<open>func->setConstexpr(true)\<close>) and the diagnostics engine (its suppression flag and
  the diagnostics it has passed on). Declarations are objects reached through pointers,
  so the flags live in a store indexed by the address of the declaration; the store also
  holds the constexpr flag of variables, which the program only reads.
\<close>

record State =
  FunctionConstexpr :: "nat \<Rightarrow> bool"
  VarConstexpr :: "nat \<Rightarrow> bool"
  SuppressAllDiagnostics :: bool
  Reported :: "Diagnostic list"

definition setSuppressAllDiagnostics :: "bool \<Rightarrow> State \<Rightarrow> State" where
  "setSuppressAllDiagnostics Val st = st\<lparr>SuppressAllDiagnostics := Val\<rparr>"

text \<open>
  \<^verbatim>\<open>DiagnosticsEngine::Report\<close> (and \<^verbatim>\<open>Sema::Diag\<close>, which goes through the same
  engine): the diagnostic reaches the sink unless all diagnostics are suppressed.
\<close>

definition Report :: "Diagnostic \<Rightarrow> State \<Rightarrow> State" where
  "Report d st =
     (if SuppressAllDiagnostics st then st else st\<lparr>Reported := Reported st @ [d]\<rparr>)"

definition Diag :: "SourceLocation \<Rightarrow> DiagID \<Rightarrow> DiagArg list \<Rightarrow> State \<Rightarrow> State" where
  "Diag L I As st = Report \<lparr>DiagLoc = L, DiagId = I, DiagArgs = As, FixIts = []\<rparr> st"

fun ReportAll :: "Diagnostic list \<Rightarrow> State \<Rightarrow> State" where
  "ReportAll [] st = st"
| "ReportAll (d # ds) st = ReportAll ds (Report d st)"

section \<open>The syntax tree\<close>

datatype TLSKind = TLS_None | TLS_Static | TLS_Dynamic

datatype VarKind = Var | Decomposition | ParmVar

record Expr =
  isValueDependent :: bool

text \<open>
  A variable declaration with the answers to the queries made of it. The three
  constant-evaluation queries (\<^verbatim>\<open>checkInitIsICE\<close>, \<^verbatim>\<open>evaluateValue\<close>,
  \<^verbatim>\<open>isInitICE\<close>) belong to the front end; their answers are fields.
\<close>

record VarDecl =
  VarAddr :: nat
  VarDeclKind :: VarKind
  VarLocation :: SourceLocation
  VarType :: QualType
  VarIsDefinition :: bool
  isStaticLocal :: bool
  getTLSKind :: TLSKind
  getInit :: "Expr option"
  isCXXForRangeDecl :: bool
  checkInitIsICE :: bool
  evaluateValue :: bool
  isInitICE :: bool

definition hasInit :: "VarDecl \<Rightarrow> bool" where
  "hasInit VD = (getInit VD \<noteq> None)"

text \<open>
  The i-th parameter of a function: the i-th parameter type of its prototype
  (\<^verbatim>\<open>*i\<close> in the loop of \<^verbatim>\<open>CheckConstexprParameterTypes\<close>) together with the
  location and range of \<^verbatim>\<open>FD->getParamDecl(i)\<close>. The prototype and the declaration
  always have the same number of parameters, so the two sequences are kept as one list.
\<close>

record Param =
  ParamType :: QualType
  ParamLocation :: SourceLocation
  ParamSourceRange :: SourceRange

datatype FunctionKind = Function | CXXMethod | CXXConstructor | CXXDestructor | CXXConversion

record FunctionDecl =
  FuncAddr :: nat
  FuncDeclKind :: FunctionKind
  FuncBegin :: SourceLocation
  isMain :: bool
  Params :: "Param list"

definition isa_CXXConstructorDecl :: "FunctionDecl \<Rightarrow> bool" where
  "isa_CXXConstructorDecl Dcl = (FuncDeclKind Dcl = CXXConstructor)"

datatype TypedefKind = Typedef | TypeAlias

record TypedefNameDecl =
  getUnderlyingType :: QualType
  TypeLocRange :: SourceRange

datatype TagKind = Enum | CXXRecord

text \<open>
  The remaining declaration kinds carry no data the program reads. The first nine are
  named by the switch of \<^verbatim>\<open>CheckConstexprDeclStmt\<close>; the others stand for every
  kind that reaches its default case.
\<close>

datatype OtherKind =
    StaticAssert | Using | UsingShadow | UsingDirective
  | UnresolvedUsingTypename | UnresolvedUsingValue
  | EnumConstant | IndirectField | NamespaceAlias
  | TranslationUnit | Namespace | LinkageSpec | Label | Empty

text \<open>
  Statements and declarations nest in each other: a declaration statement holds
  declarations, a function declaration holds its body, a class holds its members (among
  them member functions with bodies). Expressions are not modelled beyond the answers
  recorded in \<^typ>\<open>VarDecl\<close>. A function declaration that is not a definition has no
  body.
\<close>

datatype Stmt =
    DeclStmt SourceLocation "Decl list"
  | CompoundStmt "Stmt list"
  | OtherStmt "Stmt list"
and Decl =
    FunctionD FunctionDecl "Stmt option"
  | VarD VarDecl
  | TypedefNameD TypedefKind TypedefNameDecl
  | TagD TagKind bool "Decl list"
  | OtherD OtherKind "Decl list"

text \<open>
  The services of the compiler instance that the program calls and does not define:
  the source manager's file test, the language option the statement checker reads, and
  the two constexpr checks of the semantic analyser. Each check answers with its verdict
  and with the diagnostics it sends to the engine while it runs (\<^verbatim>\<open>sema_other\<close>
  stands for the diagnostics the program does not name). A check is a function of the
  declaration it is given: it neither reads nor writes the constexpr flags of the store.
  The program reaches the engine as \<^verbatim>\<open>sema.getDiagnostics()\<close> and as
  \<^verbatim>\<open>ci.getASTContext().getDiagnostics()\<close>; both are the one engine of the compiler
  instance, the one of \<^typ>\<open>State\<close>.
\<close>

record CompilerInstance =
  isWrittenInMainFile :: "SourceLocation \<Rightarrow> bool"
  CPlusPlus14 :: bool
  CheckConstexprFunctionDecl :: "FunctionDecl \<Rightarrow> bool \<times> Diagnostic list"
  CheckConstexprFunctionBody :: "FunctionDecl \<Rightarrow> Stmt option \<Rightarrow> bool \<times> Diagnostic list"

definition callSema :: "bool \<times> Diagnostic list \<Rightarrow> State \<Rightarrow> bool \<times> State" where
  "callSema r st = (fst r, ReportAll (snd r) st)"

text \<open>
  Modelled from the spec: \<^verbatim>\<open>Sema::RequireLiteralType\<close> of the semantic service, which
  the source calls and does not define
  (\<^verbatim>\<open>requireLiteralType(location, type) -> pass|fail\<close>). It answers \<^verbatim>\<open>true\<close> when the
  type is \<^emph>\<open>not\<close> literal, after sending the caller's diagnostic with the type and the
  caller's arguments to the engine, and \<^verbatim>\<open>false\<close> when the type is literal.
\<close>

definition RequireLiteralType ::
  "SourceLocation \<Rightarrow> QualType \<Rightarrow> DiagID \<Rightarrow> DiagArg list \<Rightarrow> State \<Rightarrow> bool \<times> State" where
  "RequireLiteralType L T I As st =
     (if isLiteralType T then (False, st) else (True, Diag L I (ArgType T # As) st))"

section \<open>CheckConstexprParameterTypes\<close>

text \<open>
  The loop over the parameter types, with \<^verbatim>\<open>ArgIndex\<close> counting from 0. The result is
  the verdict and the state of the engine.
\<close>

fun CheckConstexprParameterTypes_loop ::
  "FunctionDecl \<Rightarrow> nat \<Rightarrow> Param list \<Rightarrow> State \<Rightarrow> bool \<times> State" where
  "CheckConstexprParameterTypes_loop FD ArgIndex [] st = (True, st)"
| "CheckConstexprParameterTypes_loop FD ArgIndex (PD # rest) st =
     (if isDependentType (ParamType PD)
      then CheckConstexprParameterTypes_loop FD (ArgIndex + 1) rest st
      else
        (case RequireLiteralType (ParamLocation PD) (ParamType PD)
                err_constexpr_non_literal_param
                [ArgUInt (ArgIndex + 1), ArgRange (ParamSourceRange PD),
                 ArgBool (isa_CXXConstructorDecl FD)] st of
           (True, st') \<Rightarrow> (False, st')
         | (False, st') \<Rightarrow> CheckConstexprParameterTypes_loop FD (ArgIndex + 1) rest st'))"

definition CheckConstexprParameterTypes :: "FunctionDecl \<Rightarrow> State \<Rightarrow> bool \<times> State" where
  "CheckConstexprParameterTypes FD st = CheckConstexprParameterTypes_loop FD 0 (Params FD) st"

section \<open>CheckConstexprDeclStmt\<close>

text \<open>
  The body of the loop over the declarations of a declaration statement: the switch on
  the kind of one declaration. The first component of the result is \<^verbatim>\<open>True\<close> for
  \<^verbatim>\<open>continue\<close> and \<^verbatim>\<open>False\<close> for \<^verbatim>\<open>return false\<close>; the second is the in-out
  parameter \<^verbatim>\<open>Cxx1yLoc\<close>; the third is the state of the engine after the calls of
  \<^verbatim>\<open>SemaRef.Diag\<close>.
\<close>

definition CheckVarDecl ::
  "CompilerInstance \<Rightarrow> FunctionDecl \<Rightarrow> VarDecl \<Rightarrow> State \<Rightarrow> bool \<times> State" where
  "CheckVarDecl C Dcl VD st =
     (let note = Diag (VarLocation VD)
                   (if CPlusPlus14 C then warn_cxx11_compat_constexpr_local_var
                    else ext_constexpr_local_var)
                   [ArgBool (isa_CXXConstructorDecl Dcl)]
      in
      if VarIsDefinition VD then
        if isStaticLocal VD then
          (False, Diag (VarLocation VD) err_constexpr_local_var_static
                    [ArgBool (isa_CXXConstructorDecl Dcl),
                     ArgBool (getTLSKind VD = TLS_Dynamic)] st)
        else
          (case (if \<not> isDependentType (VarType VD)
                 then RequireLiteralType (VarLocation VD) (VarType VD)
                        err_constexpr_local_var_non_literal_type
                        [ArgBool (isa_CXXConstructorDecl Dcl)] st
                 else (False, st)) of
             (True, st1) \<Rightarrow> (False, st1)
           | (False, st1) \<Rightarrow>
               if \<not> isDependentType (VarType VD) \<and> \<not> hasInit VD \<and> \<not> isCXXForRangeDecl VD
               then (False, Diag (VarLocation VD) err_constexpr_local_var_no_init
                              [ArgBool (isa_CXXConstructorDecl Dcl)] st1)
               else (True, note st1))
      else (True, note st))"

fun CheckConstexprDecl ::
  "CompilerInstance \<Rightarrow> FunctionDecl \<Rightarrow> SourceLocation \<Rightarrow> Decl \<Rightarrow> SourceLocation \<Rightarrow> State
     \<Rightarrow> bool \<times> SourceLocation \<times> State" where
  "CheckConstexprDecl C Dcl DSBegin (OtherD k ms) Cxx1yLoc st =
     (if k \<in> {StaticAssert, Using, UsingShadow, UsingDirective,
               UnresolvedUsingTypename, UnresolvedUsingValue}
      then (True, Cxx1yLoc, st)
      else if k \<in> {EnumConstant, IndirectField}
      then (True, Cxx1yLoc, st)
      else if k = NamespaceAlias
      then (True, (if \<not> isValid Cxx1yLoc then DSBegin else Cxx1yLoc), st)
      else (False, Cxx1yLoc,
            Diag DSBegin err_constexpr_body_invalid_stmt
              [ArgBool (isa_CXXConstructorDecl Dcl)] st))"
| "CheckConstexprDecl C Dcl DSBegin (TypedefNameD k TN) Cxx1yLoc st =
     (if isVariablyModifiedType (getUnderlyingType TN)
      then (False, Cxx1yLoc,
            Diag (getBegin (TypeLocRange TN)) err_constexpr_vla
              [ArgRange (TypeLocRange TN), ArgType (getUnderlyingType TN),
               ArgBool (isa_CXXConstructorDecl Dcl)] st)
      else (True, Cxx1yLoc, st))"
| "CheckConstexprDecl C Dcl DSBegin (TagD k isDefinition ms) Cxx1yLoc st =
     (True, Cxx1yLoc,
      (if isDefinition
       then Diag DSBegin
              (if CPlusPlus14 C then warn_cxx11_compat_constexpr_type_definition
               else ext_constexpr_type_definition)
              [ArgBool (isa_CXXConstructorDecl Dcl)] st
       else st))"
| "CheckConstexprDecl C Dcl DSBegin (VarD VD) Cxx1yLoc st =
     (if VarDeclKind VD = ParmVar then (True, Cxx1yLoc, st)
      else (case CheckVarDecl C Dcl VD st of (ok, st') \<Rightarrow> (ok, Cxx1yLoc, st')))"
| "CheckConstexprDecl C Dcl DSBegin (FunctionD F body) Cxx1yLoc st =
     (if FuncDeclKind F = Function
      then (True, (if \<not> isValid Cxx1yLoc then DSBegin else Cxx1yLoc), st)
      else (False, Cxx1yLoc,
            Diag DSBegin err_constexpr_body_invalid_stmt
              [ArgBool (isa_CXXConstructorDecl Dcl)] st))"

text \<open>
  \<^verbatim>\<open>CheckConstexprDeclStmt(SemaRef, Dcl, DS, Cxx1yLoc)\<close>: the declaration statement
  \<^verbatim>\<open>DS\<close> is given by its begin location and its declarations.
\<close>

fun CheckConstexprDeclStmt ::
  "CompilerInstance \<Rightarrow> FunctionDecl \<Rightarrow> SourceLocation \<Rightarrow> Decl list \<Rightarrow> SourceLocation \<Rightarrow> State
     \<Rightarrow> bool \<times> SourceLocation \<times> State" where
  "CheckConstexprDeclStmt C Dcl DSBegin [] Cxx1yLoc st = (True, Cxx1yLoc, st)"
| "CheckConstexprDeclStmt C Dcl DSBegin (DclIt # rest) Cxx1yLoc st =
     (case CheckConstexprDecl C Dcl DSBegin DclIt Cxx1yLoc st of
        (False, Cxx1yLoc', st') \<Rightarrow> (False, Cxx1yLoc', st')
      | (True, Cxx1yLoc', st') \<Rightarrow> CheckConstexprDeclStmt C Dcl DSBegin rest Cxx1yLoc' st')"

section \<open>ConstexprFunctionASTVisitor\<close>

definition setConstexpr :: "FunctionDecl \<Rightarrow> bool \<Rightarrow> State \<Rightarrow> State" where
  "setConstexpr func b st =
     st\<lparr>FunctionConstexpr := (FunctionConstexpr st)(FuncAddr func := b)\<rparr>"

definition function_warning :: "SourceLocation \<Rightarrow> Diagnostic" where
  "function_warning loc =
     \<lparr>DiagLoc = loc, DiagId = CustomDiagID Warning ''function can be constexpr'',
      DiagArgs = [], FixIts = [CreateInsertion loc ''constexpr '']\<rparr>"

text \<open>
  The three checks inside the scope of the \<^verbatim>\<open>unique_ptr\<close>; the result says whether the
  scope was left at its end (\<^verbatim>\<open>True\<close>) or by one of the three \<^verbatim>\<open>return true\<close>
  statements (\<^verbatim>\<open>False\<close>).
\<close>

definition probe ::
  "CompilerInstance \<Rightarrow> FunctionDecl \<Rightarrow> Stmt option \<Rightarrow> State \<Rightarrow> bool \<times> State" where
  "probe C func body st =
     (case callSema (CheckConstexprFunctionDecl C func) st of
        (False, st1) \<Rightarrow> (False, st1)
      | (True, st1) \<Rightarrow>
          (case callSema (CheckConstexprFunctionBody C func body) st1 of
             (False, st2) \<Rightarrow> (False, st2)
           | (True, st2) \<Rightarrow>
               (case CheckConstexprParameterTypes func st2 of
                  (False, st3) \<Rightarrow> (False, st3)
                | (True, st3) \<Rightarrow> (True, st3))))"

text \<open>
  \<^verbatim>\<open>ConstexprFunctionASTVisitor::VisitFunctionDecl\<close>. The deleter of the
  \<^verbatim>\<open>unique_ptr\<close> runs when the scope is left, by its end or by a \<^verbatim>\<open>return\<close>, and
  switches suppression off.
\<close>

definition VisitFunctionDecl ::
  "CompilerInstance \<Rightarrow> FunctionDecl \<Rightarrow> Stmt option \<Rightarrow> State \<Rightarrow> State" where
  "VisitFunctionDecl C func body st =
     (let loc = FuncBegin func in
      if \<not> isWrittenInMainFile C loc then st
      else if FunctionConstexpr st (FuncAddr func) then st
      else if isMain func then st
      else
        (case probe C func body (setSuppressAllDiagnostics True st) of
           (False, st1) \<Rightarrow> setSuppressAllDiagnostics False st1
         | (True, st1) \<Rightarrow>
             Report (function_warning loc)
               (setConstexpr func True (setSuppressAllDiagnostics False st1))))"

section \<open>ConstexprVarDeclVisitor and ConstexprVarDeclFunctionASTVisitor\<close>

definition isSingleDecl :: "Decl list \<Rightarrow> bool" where
  "isSingleDecl ds = (length ds = 1)"

fun dyn_cast_VarDecl :: "Decl \<Rightarrow> VarDecl option" where
  "dyn_cast_VarDecl (VarD VD) = Some VD"
| "dyn_cast_VarDecl _ = None"

definition variable_warning :: "SourceLocation \<Rightarrow> Diagnostic" where
  "variable_warning loc =
     \<lparr>DiagLoc = loc, DiagId = CustomDiagID Warning ''variable can be constexpr'',
      DiagArgs = [], FixIts = [CreateInsertion loc ''constexpr '']\<rparr>"

text \<open>
  \<^verbatim>\<open>ConstexprVarDeclVisitor::VisitDeclStmt\<close>; \<^verbatim>\<open>loc\<close> is the begin of the
  statement's source range.
\<close>

definition VisitDeclStmt :: "SourceLocation \<Rightarrow> Decl list \<Rightarrow> State \<Rightarrow> State" where
  "VisitDeclStmt loc ds st =
     (if \<not> isSingleDecl ds then st
      else
        (case dyn_cast_VarDecl (hd ds) of
           None \<Rightarrow> st
         | Some var \<Rightarrow>
             if VarConstexpr st (VarAddr var) then st
             else
               (case getInit var of
                  None \<Rightarrow> st
                | Some Init \<Rightarrow>
                    if \<not> checkInitIsICE var then st
                    else if isValueDependent Init then st
                    else if \<not> evaluateValue var then st
                    else if \<not> isInitICE var then st
                    else Report (variable_warning loc) st)))"

section \<open>The traversal of RecursiveASTVisitor\<close>

text \<open>
  Both visitors derive from the library's recursive visitor, which walks the tree in
  pre-order and calls the hooks a visitor defines: \<^verbatim>\<open>VisitFunctionDecl\<close> at every
  function declaration (of any kind), \<^verbatim>\<open>VisitDeclStmt\<close> at every declaration
  statement. Every hook of the program returns \<^verbatim>\<open>true\<close>, so a walk is never cut short.
  A hook that a visitor does not define does nothing.
\<close>

fun TraverseDecl ::
    "(FunctionDecl \<Rightarrow> Stmt option \<Rightarrow> 's \<Rightarrow> 's) \<Rightarrow> (SourceLocation \<Rightarrow> Decl list \<Rightarrow> 's \<Rightarrow> 's)
       \<Rightarrow> Decl \<Rightarrow> 's \<Rightarrow> 's"
  and TraverseDecls ::
    "(FunctionDecl \<Rightarrow> Stmt option \<Rightarrow> 's \<Rightarrow> 's) \<Rightarrow> (SourceLocation \<Rightarrow> Decl list \<Rightarrow> 's \<Rightarrow> 's)
       \<Rightarrow> Decl list \<Rightarrow> 's \<Rightarrow> 's"
  and TraverseStmt ::
    "(FunctionDecl \<Rightarrow> Stmt option \<Rightarrow> 's \<Rightarrow> 's) \<Rightarrow> (SourceLocation \<Rightarrow> Decl list \<Rightarrow> 's \<Rightarrow> 's)
       \<Rightarrow> Stmt \<Rightarrow> 's \<Rightarrow> 's"
  and TraverseStmts ::
    "(FunctionDecl \<Rightarrow> Stmt option \<Rightarrow> 's \<Rightarrow> 's) \<Rightarrow> (SourceLocation \<Rightarrow> Decl list \<Rightarrow> 's \<Rightarrow> 's)
       \<Rightarrow> Stmt list \<Rightarrow> 's \<Rightarrow> 's"
where
  "TraverseDecl vf vs (FunctionD F None) st = vf F None st"
| "TraverseDecl vf vs (FunctionD F (Some body)) st = TraverseStmt vf vs body (vf F (Some body) st)"
| "TraverseDecl vf vs (VarD VD) st = st"
| "TraverseDecl vf vs (TypedefNameD k TN) st = st"
| "TraverseDecl vf vs (TagD k isDefinition ms) st = TraverseDecls vf vs ms st"
| "TraverseDecl vf vs (OtherD k ms) st = TraverseDecls vf vs ms st"
| "TraverseDecls vf vs [] st = st"
| "TraverseDecls vf vs (d # ds) st = TraverseDecls vf vs ds (TraverseDecl vf vs d st)"
| "TraverseStmt vf vs (DeclStmt loc ds) st = TraverseDecls vf vs ds (vs loc ds st)"
| "TraverseStmt vf vs (CompoundStmt ss) st = TraverseStmts vf vs ss st"
| "TraverseStmt vf vs (OtherStmt ss) st = TraverseStmts vf vs ss st"
| "TraverseStmts vf vs [] st = st"
| "TraverseStmts vf vs (s # ss) st = TraverseStmts vf vs ss (TraverseStmt vf vs s st)"

definition no_VisitFunctionDecl :: "FunctionDecl \<Rightarrow> Stmt option \<Rightarrow> State \<Rightarrow> State" where
  "no_VisitFunctionDecl F body st = st"

definition no_VisitDeclStmt :: "SourceLocation \<Rightarrow> Decl list \<Rightarrow> State \<Rightarrow> State" where
  "no_VisitDeclStmt loc ds st = st"

text \<open>\<^verbatim>\<open>functionVisitor.TraverseDecl\<close>: only \<^verbatim>\<open>VisitFunctionDecl\<close> is defined.\<close>

definition functionVisitor :: "CompilerInstance \<Rightarrow> Decl \<Rightarrow> State \<Rightarrow> State" where
  "functionVisitor C = TraverseDecl (VisitFunctionDecl C) no_VisitDeclStmt"

text \<open>
  \<^verbatim>\<open>vd.TraverseFunctionDecl(func)\<close>: the inner visitor defines only
  \<^verbatim>\<open>VisitDeclStmt\<close> and walks the whole of the function it is given.
\<close>

definition vd_TraverseFunctionDecl :: "FunctionDecl \<Rightarrow> Stmt option \<Rightarrow> State \<Rightarrow> State" where
  "vd_TraverseFunctionDecl func body =
     TraverseDecl no_VisitFunctionDecl VisitDeclStmt (FunctionD func body)"

text \<open>\<^verbatim>\<open>ConstexprVarDeclFunctionASTVisitor::VisitFunctionDecl\<close>.\<close>

definition VarDecl_VisitFunctionDecl ::
  "CompilerInstance \<Rightarrow> FunctionDecl \<Rightarrow> Stmt option \<Rightarrow> State \<Rightarrow> State" where
  "VarDecl_VisitFunctionDecl C func body st =
     (let loc = FuncBegin func in
      if \<not> isWrittenInMainFile C loc then st
      else if FunctionConstexpr st (FuncAddr func) then st
      else vd_TraverseFunctionDecl func body st)"

definition varDeclVisitor :: "CompilerInstance \<Rightarrow> Decl \<Rightarrow> State \<Rightarrow> State" where
  "varDeclVisitor C = TraverseDecl (VarDecl_VisitFunctionDecl C) no_VisitDeclStmt"

text \<open>\<^verbatim>\<open>ConstexprEverythingASTConsumer::HandleTranslationUnit\<close>.\<close>

definition HandleTranslationUnit :: "CompilerInstance \<Rightarrow> Decl \<Rightarrow> State \<Rightarrow> State" where
  "HandleTranslationUnit C tu st = varDeclVisitor C tu (functionVisitor C tu st)"

section \<open>The function-body rules as the specification describes them\<close>

text \<open>
  Modelled from the spec: the part of \<^verbatim>\<open>Sema::CheckConstexprFunctionBody\<close> (which the
  source calls and does not define) that goes through the statements directly in the
  body and applies the statement-body checker \<^verbatim>\<open>CheckConstexprDeclStmt\<close> to every
  declaration statement among them, stopping at the first one it rejects. Statements of
  other kinds are left to the other constraints.
\<close>

fun spec_body_DeclStmts ::
  "CompilerInstance \<Rightarrow> FunctionDecl \<Rightarrow> Stmt list \<Rightarrow> SourceLocation \<Rightarrow> State
     \<Rightarrow> bool \<times> SourceLocation \<times> State" where
  "spec_body_DeclStmts C Dcl [] Cxx1yLoc st = (True, Cxx1yLoc, st)"
| "spec_body_DeclStmts C Dcl (DeclStmt loc ds # rest) Cxx1yLoc st =
     (case CheckConstexprDeclStmt C Dcl loc ds Cxx1yLoc st of
        (False, Cxx1yLoc', st') \<Rightarrow> (False, Cxx1yLoc', st')
      | (True, Cxx1yLoc', st') \<Rightarrow> spec_body_DeclStmts C Dcl rest Cxx1yLoc' st')"
| "spec_body_DeclStmts C Dcl (s # rest) Cxx1yLoc st = spec_body_DeclStmts C Dcl rest Cxx1yLoc st"

text \<open>The statements directly in a body: those of its compound statement.\<close>

fun direct_children :: "Stmt option \<Rightarrow> Stmt list" where
  "direct_children (Some (CompoundStmt ss)) = ss"
| "direct_children _ = []"

text \<open>An engine with diagnostics enabled and an empty sink, to collect what a service sends.\<close>

definition fresh_engine :: State where
  "fresh_engine = \<lparr>FunctionConstexpr = (\<lambda>a. False), VarConstexpr = (\<lambda>a. False),
                    SuppressAllDiagnostics = False, Reported = []\<rparr>"

text \<open>
  Modelled from the spec: \<^verbatim>\<open>Sema::CheckConstexprFunctionBody\<close>, the function-body rules
  of the semantic service, which the source calls and does not define. The specification
  describes them as "applying the Statement-Body Legality Checker to every direct child
  declaration-statement of the body, plus any other per-language-body legality
  constraints delegated to the Semantic Query Service". The other constraints are the
  parameter \<open>other\<close>, consulted when every declaration statement has passed. The answer
  has the form of every answer of the service: the verdict and the diagnostics sent.
\<close>

definition spec_CheckConstexprFunctionBody ::
  "CompilerInstance \<Rightarrow> (FunctionDecl \<Rightarrow> Stmt option \<Rightarrow> bool \<times> Diagnostic list)
     \<Rightarrow> FunctionDecl \<Rightarrow> Stmt option \<Rightarrow> bool \<times> Diagnostic list" where
  "spec_CheckConstexprFunctionBody C other Dcl body =
     (case spec_body_DeclStmts C Dcl (direct_children body) 0 fresh_engine of
        (False, Cxx1yLoc, st) \<Rightarrow> (False, Reported st)
      | (True, Cxx1yLoc, st) \<Rightarrow> (fst (other Dcl body), Reported st @ snd (other Dcl body)))"

section \<open>The run as a function of the three verdicts\<close>

text \<open>A parameter passes the literalness check when its type is dependent or literal.\<close>

definition literal_or_dependent :: "Param \<Rightarrow> bool" where
  "literal_or_dependent PD = (isDependentType (ParamType PD) \<or> isLiteralType (ParamType PD))"

text \<open>
  A second visitor, written from the verdicts alone: it is given the file test and the
  verdicts of the declaration rules and of the body rules, decides the parameters by
  their types, and touches nothing else. It is the program with everything removed that
  does not enter the decision; the statement checker \<^verbatim>\<open>CheckConstexprDeclStmt\<close> has no
  part in it.
\<close>

definition verdict_VisitFunctionDecl ::
  "(SourceLocation \<Rightarrow> bool) \<Rightarrow> (FunctionDecl \<Rightarrow> bool) \<Rightarrow> (FunctionDecl \<Rightarrow> Stmt option \<Rightarrow> bool)
     \<Rightarrow> FunctionDecl \<Rightarrow> Stmt option \<Rightarrow> State \<Rightarrow> State" where
  "verdict_VisitFunctionDecl inMain declRules bodyRules func body st =
     (if inMain (FuncBegin func) \<and> \<not> FunctionConstexpr st (FuncAddr func) \<and> \<not> isMain func
      then
        (if declRules func \<and> bodyRules func body \<and> list_all literal_or_dependent (Params func)
         then st\<lparr>FunctionConstexpr := (FunctionConstexpr st)(FuncAddr func := True),
                 SuppressAllDiagnostics := False,
                 Reported := Reported st @ [function_warning (FuncBegin func)]\<rparr>
         else st\<lparr>SuppressAllDiagnostics := False\<rparr>)
      else st)"

text \<open>
  The run with the second visitor as function pass. The variable pass is the one of the
  source, which asks the compiler instance for the file test only.
\<close>

definition verdict_HandleTranslationUnit ::
  "(SourceLocation \<Rightarrow> bool) \<Rightarrow> (FunctionDecl \<Rightarrow> bool) \<Rightarrow> (FunctionDecl \<Rightarrow> Stmt option \<Rightarrow> bool)
     \<Rightarrow> Decl \<Rightarrow> State \<Rightarrow> State" where
  "verdict_HandleTranslationUnit inMain declRules bodyRules tu st =
     TraverseDecl
       (\<lambda>func body st.
          if \<not> inMain (FuncBegin func) then st
          else if FunctionConstexpr st (FuncAddr func) then st
          else vd_TraverseFunctionDecl func body st)
       no_VisitDeclStmt tu
       (TraverseDecl (verdict_VisitFunctionDecl inMain declRules bodyRules) no_VisitDeclStmt tu st)"

section \<open>Progress of the state\<close>

text \<open>
  The function visitor only ever switches flags on and suppression off. A step
  \<^emph>\<open>settles\<close> when, in every state that lies beyond its result, it changes nothing.
\<close>

definition advances :: "State \<Rightarrow> State \<Rightarrow> bool" where
  "advances st st' =
     ((\<forall>a. FunctionConstexpr st a \<longrightarrow> FunctionConstexpr st' a)
      \<and> (SuppressAllDiagnostics st' \<longrightarrow> SuppressAllDiagnostics st))"

definition settles :: "(State \<Rightarrow> State) \<Rightarrow> bool" where
  "settles f = (\<forall>st. advances st (f st) \<and> (\<forall>st'. advances (f st) st' \<longrightarrow> f st' = st'))"

section \<open>Example inputs\<close>

text \<open>The types \<^verbatim>\<open>int\<close>, \<^verbatim>\<open>std::string\<close> and a template parameter \<^verbatim>\<open>T\<close>.\<close>

definition int_ty :: QualType where
  "int_ty = \<lparr>TypeName = ''int'', isDependentType = False, isLiteralType = True,
             isVariablyModifiedType = False\<rparr>"

definition string_ty :: QualType where
  "string_ty = \<lparr>TypeName = ''std::string'', isDependentType = False, isLiteralType = False,
                isVariablyModifiedType = False\<rparr>"

definition T_ty :: QualType where
  "T_ty = \<lparr>TypeName = ''T'', isDependentType = True, isLiteralType = False,
           isVariablyModifiedType = False\<rparr>"

definition mk_param :: "QualType \<Rightarrow> SourceLocation \<Rightarrow> Param" where
  "mk_param T L = \<lparr>ParamType = T, ParamLocation = L,
                   ParamSourceRange = \<lparr>getBegin = L, getEnd = L + 1\<rparr>\<rparr>"

text \<open>
  A compiler instance for the examples: locations below 1000 are in the main file, the
  declaration rules accept every function, and the body rules accept every function that
  has a body, with a note that must not reach the user.
\<close>

definition C0 :: CompilerInstance where
  "C0 = \<lparr>isWrittenInMainFile = (\<lambda>L. L < 1000),
         CPlusPlus14 = True,
         CheckConstexprFunctionDecl = (\<lambda>F. (True, [])),
         CheckConstexprFunctionBody =
           (\<lambda>F body.
              (case body of
                 None \<Rightarrow> (False, [\<lparr>DiagLoc = FuncBegin F, DiagId = sema_other 100,
                                    DiagArgs = [], FixIts = []\<rparr>])
               | Some b \<Rightarrow> (True, [\<lparr>DiagLoc = FuncBegin F, DiagId = sema_other 101,
                                     DiagArgs = [], FixIts = []\<rparr>])))\<rparr>"

text \<open>The state before a run: nothing is constexpr, diagnostics are enabled.\<close>

definition st0 :: State where
  "st0 = \<lparr>FunctionConstexpr = (\<lambda>a. False), VarConstexpr = (\<lambda>a. False),
          SuppressAllDiagnostics = False, Reported = []\<rparr>"

text \<open>\<^verbatim>\<open>int square(int x) { return x * x; }\<close> at location 10.\<close>

definition square :: FunctionDecl where
  "square = \<lparr>FuncAddr = 11, FuncDeclKind = Function, FuncBegin = 10, isMain = False,
             Params = [mk_param int_ty 21]\<rparr>"

definition square_body :: Stmt where
  "square_body = CompoundStmt [OtherStmt []]"

text \<open>\<^verbatim>\<open>void print(std::string s) { }\<close> at location 40.\<close>

definition print :: FunctionDecl where
  "print = \<lparr>FuncAddr = 12, FuncDeclKind = Function, FuncBegin = 40, isMain = False,
            Params = [mk_param string_ty 51]\<rparr>"





definition C_spec :: CompilerInstance where
  "C_spec = C0\<lparr>CheckConstexprFunctionBody :=
                 spec_CheckConstexprFunctionBody C0 (CheckConstexprFunctionBody C0)\<rparr>"

text \<open>
  Local variables: \<^verbatim>\<open>const int n = 5 * 5;\<close>, a variable whose initializer is
  value-dependent and yet evaluates (\<^verbatim>\<open>const int d = true ? 1 : N;\<close> in a template
  with parameter \<^verbatim>\<open>N\<close>), and \<^verbatim>\<open>int u;\<close>.
\<close>

definition n_var :: VarDecl where
  "n_var = \<lparr>VarAddr = 31, VarDeclKind = Var, VarLocation = 136, VarType = int_ty,
            VarIsDefinition = True, isStaticLocal = False, getTLSKind = TLS_None,
            getInit = Some \<lparr>isValueDependent = False\<rparr>, isCXXForRangeDecl = False,
            checkInitIsICE = True, evaluateValue = True, isInitICE = True\<rparr>"

definition dep_var :: VarDecl where
  "dep_var = n_var\<lparr>VarAddr := 32, getInit := Some \<lparr>isValueDependent = True\<rparr>\<rparr>"

definition uninit_var :: VarDecl where
  "uninit_var = n_var\<lparr>VarAddr := 33, getInit := None, checkInitIsICE := False,
                      evaluateValue := False, isInitICE := False\<rparr>"

text \<open>
  A function that stays non-constexpr (its parameter is not literal) around a local
  class with a member function that qualifies:
  \<^verbatim>\<open>void outer(std::string s) { struct S { int g() { const int n = 5 * 5; return n; } }; }\<close>
\<close>

definition g_fn :: FunctionDecl where
  "g_fn = \<lparr>FuncAddr = 15, FuncDeclKind = CXXMethod, FuncBegin = 120, isMain = False,
           Params = []\<rparr>"

definition outer_fn :: FunctionDecl where
  "outer_fn = \<lparr>FuncAddr = 16, FuncDeclKind = Function, FuncBegin = 100, isMain = False,
               Params = [mk_param string_ty 105]\<rparr>"

definition tu_nested :: Decl where
  "tu_nested = OtherD TranslationUnit
     [FunctionD outer_fn (Some (CompoundStmt
        [DeclStmt 110 [TagD CXXRecord True
           [FunctionD g_fn (Some (CompoundStmt [DeclStmt 130 [VarD n_var], OtherStmt []]))]]]))]"

text \<open>\<^verbatim>\<open>int main() { const int m = 5 * 5; return m; }\<close> at location 200.\<close>

definition main_fn :: FunctionDecl where
  "main_fn = \<lparr>FuncAddr = 14, FuncDeclKind = Function, FuncBegin = 200, isMain = True,
              Params = []\<rparr>"

definition m_var :: VarDecl where
  "m_var = n_var\<lparr>VarAddr := 35, VarLocation := 216\<rparr>"

definition tu_main :: Decl where
  "tu_main = OtherD TranslationUnit
     [FunctionD main_fn (Some (CompoundStmt [DeclStmt 210 [VarD m_var], OtherStmt []]))]"

text \<open>
  \<^verbatim>\<open>template <class T> void h(int a, T b, std::string c, int d);\<close> at location 300.
\<close>

definition h_fn :: FunctionDecl where
  "h_fn = \<lparr>FuncAddr = 17, FuncDeclKind = Function, FuncBegin = 300, isMain = False,
           Params = [mk_param int_ty 310, mk_param T_ty 320, mk_param string_ty 330,
                     mk_param int_ty 340]\<rparr>"

section \<open>Diagnostics under suppression\<close>

lemma Report_suppressed [simp]: "SuppressAllDiagnostics st \<Longrightarrow> Report d st = st"
  by (simp add: Report_def)

lemma Diag_suppressed [simp]: "SuppressAllDiagnostics st \<Longrightarrow> Diag L I As st = st"
  by (simp add: Diag_def)

lemma ReportAll_suppressed [simp]: "SuppressAllDiagnostics st \<Longrightarrow> ReportAll ds st = st"
  by (induction ds) simp_all

lemma callSema_suppressed [simp]:
  "SuppressAllDiagnostics st \<Longrightarrow> callSema r st = (fst r, st)"
  by (simp add: callSema_def)

lemma loop_verdict:
  "fst (CheckConstexprParameterTypes_loop FD i ps st) = list_all literal_or_dependent ps"
  by (induction ps arbitrary: i st)
     (auto simp: literal_or_dependent_def RequireLiteralType_def)

lemma loop_suppressed:
  "SuppressAllDiagnostics st \<Longrightarrow> snd (CheckConstexprParameterTypes_loop FD i ps st) = st"
  by (induction ps arbitrary: i)
     (auto simp: RequireLiteralType_def)

lemma params_suppressed:
  "SuppressAllDiagnostics st \<Longrightarrow>
   CheckConstexprParameterTypes FD st = (list_all literal_or_dependent (Params FD), st)"
  using loop_verdict [of FD 0 "Params FD" st] loop_suppressed [of st FD 0 "Params FD"]
  by (simp add: CheckConstexprParameterTypes_def prod_eq_iff)

lemma probe_suppressed:
  "SuppressAllDiagnostics st \<Longrightarrow>
   probe C func body st =
     (fst (CheckConstexprFunctionDecl C func) \<and> fst (CheckConstexprFunctionBody C func body)
        \<and> list_all literal_or_dependent (Params func), st)"
  by (simp add: probe_def params_suppressed split: bool.splits)

section \<open>One visit of the function visitor\<close>

lemma VisitFunctionDecl_skip:
  "\<not> isWrittenInMainFile C (FuncBegin func) \<or> FunctionConstexpr st (FuncAddr func) \<or> isMain func
   \<Longrightarrow> VisitFunctionDecl C func body st = st"
  by (auto simp: VisitFunctionDecl_def Let_def)

lemma VisitFunctionDecl_probed:
  assumes "isWrittenInMainFile C (FuncBegin func)"
    and "\<not> FunctionConstexpr st (FuncAddr func)"
    and "\<not> isMain func"
  shows "VisitFunctionDecl C func body st =
     (if fst (CheckConstexprFunctionDecl C func) \<and> fst (CheckConstexprFunctionBody C func body)
          \<and> list_all literal_or_dependent (Params func)
      then st\<lparr>FunctionConstexpr := (FunctionConstexpr st)(FuncAddr func := True),
              SuppressAllDiagnostics := False,
              Reported := Reported st @ [function_warning (FuncBegin func)]\<rparr>
      else st\<lparr>SuppressAllDiagnostics := False\<rparr>)"
  using assms
  by (auto simp: VisitFunctionDecl_def Let_def probe_suppressed setSuppressAllDiagnostics_def
        setConstexpr_def Report_def split: bool.splits)

lemmas example_defs =
  C0_def st0_def square_def square_body_def print_def mk_param_def int_ty_def string_ty_def
  T_ty_def

text \<open>
  Claim C1. For a function declaration in the main file that is not constexpr and not
  \<^verbatim>\<open>main\<close>: when the declaration rules, the body rules and the parameter check all
  pass, the visit sets the constexpr flag of this function (and of no other) and adds
  exactly one diagnostic to the sink, the warning "function can be constexpr" at the
  begin of the function with a fix-it inserting \<^verbatim>\<open>constexpr \<close> there; when one of
  them fails, the flags and the sink are as before.
\<close>

theorem VisitFunctionDecl_marks_and_warns_iff_checks_pass:
  assumes "isWrittenInMainFile C (FuncBegin func)"
    and "\<not> FunctionConstexpr st (FuncAddr func)"
    and "\<not> isMain func"
  shows "(fst (CheckConstexprFunctionDecl C func) \<and> fst (CheckConstexprFunctionBody C func body)
            \<and> fst (CheckConstexprParameterTypes func st)
          \<longrightarrow> FunctionConstexpr (VisitFunctionDecl C func body st)
                = (FunctionConstexpr st)(FuncAddr func := True)
              \<and> Reported (VisitFunctionDecl C func body st)
                = Reported st @
                  [\<lparr>DiagLoc = FuncBegin func,
                    DiagId = CustomDiagID Warning ''function can be constexpr'',
                    DiagArgs = [],
                    FixIts = [\<lparr>InsertionLoc = FuncBegin func, CodeToInsert = ''constexpr ''\<rparr>]\<rparr>])
       \<and> (\<not> (fst (CheckConstexprFunctionDecl C func) \<and> fst (CheckConstexprFunctionBody C func body)
               \<and> fst (CheckConstexprParameterTypes func st))
          \<longrightarrow> FunctionConstexpr (VisitFunctionDecl C func body st) = FunctionConstexpr st
              \<and> Reported (VisitFunctionDecl C func body st) = Reported st)"
  using assms
  by (simp add: VisitFunctionDecl_probed CheckConstexprParameterTypes_def loop_verdict
        function_warning_def CreateInsertion_def)

theorem VisitFunctionDecl_marks_and_warns_witness:
  "(isWrittenInMainFile C0 (FuncBegin square) \<and> \<not> FunctionConstexpr st0 (FuncAddr square)
      \<and> \<not> isMain square
      \<and> fst (CheckConstexprFunctionDecl C0 square)
      \<and> fst (CheckConstexprFunctionBody C0 square (Some square_body))
      \<and> fst (CheckConstexprParameterTypes square st0)
      \<and> FunctionConstexpr (VisitFunctionDecl C0 square (Some square_body) st0) 11
      \<and> Reported (VisitFunctionDecl C0 square (Some square_body) st0)
          = [\<lparr>DiagLoc = 10, DiagId = CustomDiagID Warning ''function can be constexpr'',
               DiagArgs = [],
               FixIts = [\<lparr>InsertionLoc = 10, CodeToInsert = ''constexpr ''\<rparr>]\<rparr>])
   \<and> (isWrittenInMainFile C0 (FuncBegin print) \<and> \<not> FunctionConstexpr st0 (FuncAddr print)
      \<and> \<not> isMain print
      \<and> \<not> fst (CheckConstexprParameterTypes print st0)
      \<and> \<not> FunctionConstexpr (VisitFunctionDecl C0 print (Some square_body) st0) 12
      \<and> Reported (VisitFunctionDecl C0 print (Some square_body) st0) = [])"
proof -
  have guards: "isWrittenInMainFile C0 (FuncBegin square)"
      "\<not> FunctionConstexpr st0 (FuncAddr square)" "\<not> isMain square"
      "isWrittenInMainFile C0 (FuncBegin print)"
      "\<not> FunctionConstexpr st0 (FuncAddr print)" "\<not> isMain print"
    by (simp_all add: example_defs)
  have checks: "fst (CheckConstexprFunctionDecl C0 square)"
      "fst (CheckConstexprFunctionBody C0 square (Some square_body))"
      "fst (CheckConstexprParameterTypes square st0)"
      "\<not> fst (CheckConstexprParameterTypes print st0)"
    by (simp_all add: example_defs CheckConstexprParameterTypes_def RequireLiteralType_def)
  have vals: "FuncAddr square = 11" "FuncBegin square = 10" "FuncAddr print = 12"
      "Reported st0 = []" "\<not> FunctionConstexpr st0 12"
    by (simp_all add: example_defs)
  show ?thesis
    using VisitFunctionDecl_marks_and_warns_iff_checks_pass
            [of C0 square st0 "Some square_body", OF guards(1-3)]
          VisitFunctionDecl_marks_and_warns_iff_checks_pass
            [of C0 print st0 "Some square_body", OF guards(4-6)]
          guards checks vals
    by simp
qed

text \<open>
  Claim C5. When the probe of a function is started (the function is in the main file,
  not constexpr and not \<^verbatim>\<open>main\<close>), diagnostics are enabled again when the visit
  returns, whichever of the three checks ended the probe and whatever the state of the
  flag was before; a visit that starts with diagnostics enabled ends with them enabled
  on every path, the three early returns included; and when the three checks pass, the
  warning reaches the sink even if diagnostics were suppressed before the visit.
\<close>

theorem VisitFunctionDecl_restores_diagnostics:
  "(isWrittenInMainFile C (FuncBegin func) \<and> \<not> FunctionConstexpr st (FuncAddr func) \<and> \<not> isMain func
      \<longrightarrow> \<not> SuppressAllDiagnostics (VisitFunctionDecl C func body st))
   \<and> (\<not> SuppressAllDiagnostics st \<longrightarrow> \<not> SuppressAllDiagnostics (VisitFunctionDecl C func body st))
   \<and> (isWrittenInMainFile C (FuncBegin func) \<and> \<not> FunctionConstexpr st (FuncAddr func) \<and> \<not> isMain func
        \<and> fst (probe C func body (setSuppressAllDiagnostics True st))
      \<longrightarrow> Reported (VisitFunctionDecl C func body st)
          = Reported st @ [function_warning (FuncBegin func)])"
proof (cases "\<not> isWrittenInMainFile C (FuncBegin func) \<or> FunctionConstexpr st (FuncAddr func)
                \<or> isMain func")
  case True
  then show ?thesis using VisitFunctionDecl_skip [OF True] by auto
next
  case False
  then show ?thesis
    by (simp add: VisitFunctionDecl_probed probe_suppressed setSuppressAllDiagnostics_def)
qed

theorem VisitFunctionDecl_restores_diagnostics_witness:
  "isWrittenInMainFile C0 (FuncBegin print) \<and> \<not> FunctionConstexpr st0 (FuncAddr print)
     \<and> \<not> isMain print
     \<and> \<not> SuppressAllDiagnostics
           (VisitFunctionDecl C0 print None (st0\<lparr>SuppressAllDiagnostics := True\<rparr>))
     \<and> \<not> SuppressAllDiagnostics st0
     \<and> \<not> SuppressAllDiagnostics (VisitFunctionDecl C0 square (Some square_body) st0)
     \<and> isWrittenInMainFile C0 (FuncBegin square) \<and> \<not> FunctionConstexpr st0 (FuncAddr square)
     \<and> \<not> isMain square
     \<and> fst (probe C0 square (Some square_body)
              (setSuppressAllDiagnostics True (st0\<lparr>SuppressAllDiagnostics := True\<rparr>)))
     \<and> Reported (VisitFunctionDecl C0 square (Some square_body)
                   (st0\<lparr>SuppressAllDiagnostics := True\<rparr>))
         = [function_warning 10]"
proof -
  have started: "isWrittenInMainFile C0 (FuncBegin print)"
      "\<not> FunctionConstexpr st0 (FuncAddr print)" "\<not> isMain print"
      "isWrittenInMainFile C0 (FuncBegin square)"
      "\<not> FunctionConstexpr st0 (FuncAddr square)" "\<not> isMain square"
    by (simp_all add: example_defs)
  have enabled: "\<not> SuppressAllDiagnostics st0"
    by (simp add: st0_def)
  have same: "FunctionConstexpr (st0\<lparr>SuppressAllDiagnostics := True\<rparr>) = FunctionConstexpr st0"
      "Reported (st0\<lparr>SuppressAllDiagnostics := True\<rparr>) = Reported st0"
    by simp_all
  have passes: "fst (probe C0 square (Some square_body)
              (setSuppressAllDiagnostics True (st0\<lparr>SuppressAllDiagnostics := True\<rparr>)))"
    by (simp add: probe_suppressed setSuppressAllDiagnostics_def example_defs
          literal_or_dependent_def)
  have vals: "FuncBegin square = 10" "Reported st0 = []"
    by (simp_all add: example_defs)
  show ?thesis
    using VisitFunctionDecl_restores_diagnostics
            [of C0 print "st0\<lparr>SuppressAllDiagnostics := True\<rparr>" None]
          VisitFunctionDecl_restores_diagnostics [of C0 square st0 "Some square_body"]
          VisitFunctionDecl_restores_diagnostics
            [of C0 square "st0\<lparr>SuppressAllDiagnostics := True\<rparr>" "Some square_body"]
          started enabled passes
    unfolding same vals by simp
qed

section \<open>One visit of the variable visitor\<close>

lemma VisitDeclStmt_single:
  "VisitDeclStmt loc [VarD var] st =
     (if \<not> VarConstexpr st (VarAddr var)
         \<and> (\<exists>Init. getInit var = Some Init \<and> \<not> isValueDependent Init)
         \<and> checkInitIsICE var \<and> evaluateValue var \<and> isInitICE var
      then Report (variable_warning loc) st else st)"
  by (auto simp: VisitDeclStmt_def isSingleDecl_def split: option.splits)

lemma VisitDeclStmt_VarConstexpr:
  "VarConstexpr (VisitDeclStmt loc ds st) = VarConstexpr st"
  by (simp add: VisitDeclStmt_def Report_def split: option.splits)

lemma TraverseDecls_vars:
  "TraverseDecls vf vs (map VarD vds) st = st"
  by (induction vds) simp_all

text \<open>
  Claim C3, as stated, fails. The variable \<^verbatim>\<open>d\<close> of the examples is not constexpr,
  has an initializer, passes the pre-check, evaluates and is classified as a constant
  initializer, and yet the visit of its statement reports nothing: the initializer is
  value-dependent, and the visitor returns on that test.
\<close>

theorem VisitDeclStmt_value_dependent_counterexample:
  "\<not> SuppressAllDiagnostics st0 \<and> \<not> VarConstexpr st0 (VarAddr dep_var)
   \<and> getInit dep_var \<noteq> None \<and> checkInitIsICE dep_var \<and> evaluateValue dep_var
   \<and> isInitICE dep_var
   \<and> Reported (VisitDeclStmt 70 [VarD dep_var] st0) = []"
  by (simp add: VisitDeclStmt_single dep_var_def n_var_def st0_def)

text \<open>
  Claim C3, amended. While diagnostics are enabled, the visit of a statement that
  declares the single variable \<open>var\<close> adds the warning "variable can be constexpr" with
  the fix-it inserting \<^verbatim>\<open>constexpr \<close> at the begin of the statement if and only if the
  variable is not constexpr, has an initializer that is not value-dependent, passes the
  pre-check, evaluates, and is classified as a constant initializer; otherwise the state
  is unchanged. A variable without initializer gets no suggestion, and the constexpr
  flags of variables are never changed.
\<close>

theorem VisitDeclStmt_warns_iff:
  assumes "\<not> SuppressAllDiagnostics st"
  shows "(Reported (VisitDeclStmt loc [VarD var] st)
            = Reported st @
              [\<lparr>DiagLoc = loc, DiagId = CustomDiagID Warning ''variable can be constexpr'',
                DiagArgs = [],
                FixIts = [\<lparr>InsertionLoc = loc, CodeToInsert = ''constexpr ''\<rparr>]\<rparr>])
         = (\<not> VarConstexpr st (VarAddr var)
            \<and> (\<exists>Init. getInit var = Some Init \<and> \<not> isValueDependent Init)
            \<and> checkInitIsICE var \<and> evaluateValue var \<and> isInitICE var)
       \<and> (Reported (VisitDeclStmt loc [VarD var] st)
            \<noteq> Reported st @
              [\<lparr>DiagLoc = loc, DiagId = CustomDiagID Warning ''variable can be constexpr'',
                DiagArgs = [],
                FixIts = [\<lparr>InsertionLoc = loc, CodeToInsert = ''constexpr ''\<rparr>]\<rparr>]
           \<longrightarrow> VisitDeclStmt loc [VarD var] st = st)
       \<and> (getInit var = None \<longrightarrow> VisitDeclStmt loc [VarD var] st = st)
       \<and> VarConstexpr (VisitDeclStmt loc [VarD var] st) = VarConstexpr st"
  using assms
  by (auto simp: VisitDeclStmt_single VisitDeclStmt_VarConstexpr Report_def
        variable_warning_def CreateInsertion_def)

theorem VisitDeclStmt_warns_iff_witness:
  "\<not> SuppressAllDiagnostics st0
   \<and> Reported (VisitDeclStmt 130 [VarD n_var] st0)
       = [\<lparr>DiagLoc = 130, DiagId = CustomDiagID Warning ''variable can be constexpr'',
            DiagArgs = [],
            FixIts = [\<lparr>InsertionLoc = 130, CodeToInsert = ''constexpr ''\<rparr>]\<rparr>]
   \<and> getInit uninit_var = None
   \<and> VisitDeclStmt 130 [VarD uninit_var] st0 = st0
   \<and> VarConstexpr (VisitDeclStmt 130 [VarD n_var] st0) = VarConstexpr st0"
proof -
  have enabled: "\<not> SuppressAllDiagnostics st0" and empty: "Reported st0 = []"
    by (simp_all add: st0_def)
  have qualifies: "\<not> VarConstexpr st0 (VarAddr n_var)
      \<and> (\<exists>Init. getInit n_var = Some Init \<and> \<not> isValueDependent Init)
      \<and> checkInitIsICE n_var \<and> evaluateValue n_var \<and> isInitICE n_var"
    by (simp add: st0_def n_var_def)
  have uninit: "getInit uninit_var = None"
    by (simp add: uninit_var_def)
  show ?thesis
    using VisitDeclStmt_warns_iff [OF enabled, of 130 n_var]
          VisitDeclStmt_warns_iff [OF enabled, of 130 uninit_var]
          enabled empty qualifies uninit
    by simp
qed

text \<open>
  Claim C8. The visit of a declaration statement with more than one declaration changes
  nothing; and when all its declarations are variables, the whole walk of the inner
  visitor through the statement changes nothing, so none of them gets a suggestion.
\<close>

theorem VisitDeclStmt_skips_multiple_declarators:
  assumes "1 < length ds"
  shows "VisitDeclStmt loc ds st = st
     \<and> (\<forall>vds. ds = map VarD vds
          \<longrightarrow> TraverseStmt no_VisitFunctionDecl VisitDeclStmt (DeclStmt loc ds) st = st)"
  using assms by (auto simp: VisitDeclStmt_def isSingleDecl_def TraverseDecls_vars)

theorem VisitDeclStmt_skips_multiple_declarators_witness:
  "1 < length [VarD n_var, VarD m_var]
   \<and> VisitDeclStmt 130 [VarD n_var, VarD m_var] st0 = st0
   \<and> TraverseStmt no_VisitFunctionDecl VisitDeclStmt
        (DeclStmt 130 [VarD n_var, VarD m_var]) st0 = st0
   \<and> Reported (VisitDeclStmt 130 [VarD n_var] st0) \<noteq> []
   \<and> Reported (VisitDeclStmt 131 [VarD m_var] st0) \<noteq> []"
proof -
  have two: "1 < length [VarD n_var, VarD m_var]" by simp
  have vars: "[VarD n_var, VarD m_var] = map VarD [n_var, m_var]" by simp
  have alone: "Reported (VisitDeclStmt 130 [VarD n_var] st0) \<noteq> []"
      "Reported (VisitDeclStmt 131 [VarD m_var] st0) \<noteq> []"
    by (simp_all add: VisitDeclStmt_single Report_def st0_def n_var_def m_var_def)
  note skipped = VisitDeclStmt_skips_multiple_declarators [OF two, of 130 st0]
  have visit: "VisitDeclStmt 130 [VarD n_var, VarD m_var] st0 = st0"
    using skipped by (rule conjunct1)
  have walk: "TraverseStmt no_VisitFunctionDecl VisitDeclStmt
        (DeclStmt 130 [VarD n_var, VarD m_var]) st0 = st0"
    using skipped [THEN conjunct2, THEN spec, of "[n_var, m_var]"] by simp
  show ?thesis
    using two visit walk alone by simp
qed

section \<open>The parameter check\<close>

lemma loop_skips_prefix:
  "list_all literal_or_dependent pre \<Longrightarrow>
   CheckConstexprParameterTypes_loop FD i (pre @ rest) st
     = CheckConstexprParameterTypes_loop FD (i + length pre) rest st"
  by (induction pre arbitrary: i)
     (auto simp: literal_or_dependent_def RequireLiteralType_def)

lemma loop_all_pass:
  "list_all literal_or_dependent ps \<Longrightarrow>
   CheckConstexprParameterTypes_loop FD i ps st = (True, st)"
  using loop_skips_prefix [of ps FD i "[]" st] by simp

lemma loop_dependent_unchecked:
  "isDependentType (ParamType PD) \<Longrightarrow>
   CheckConstexprParameterTypes_loop FD i
       (pre @ PD\<lparr>ParamType := (ParamType PD)\<lparr>isLiteralType := b\<rparr>\<rparr> # post) st
     = CheckConstexprParameterTypes_loop FD i (pre @ PD # post) st"
  by (induction pre arbitrary: i st) (auto split: prod.splits bool.splits)

lemma loop_other_params:
  "CheckConstexprParameterTypes_loop (FD\<lparr>Params := ps'\<rparr>) i ps st
     = CheckConstexprParameterTypes_loop FD i ps st"
  by (induction ps arbitrary: i st)
     (auto simp: isa_CXXConstructorDecl_def split: prod.splits bool.splits)

text \<open>
  Claim C6. For a function with the parameters \<open>pre @ PD # post\<close>: when every
  parameter of \<open>pre\<close> has a dependent or literal type and the type of \<open>PD\<close> is neither,
  the check answers false and sends one diagnostic to the engine, at the location of
  \<open>PD\<close>, with the type, the 1-based index \<open>length pre + 1\<close> and the source range of
  \<open>PD\<close>; nothing of \<open>post\<close> is looked at. When every parameter has a dependent or
  literal type, the check answers true and sends nothing. A parameter of dependent type,
  at any position, does not change the verdict, and the result does not depend on
  whether its type would be literal.
\<close>

theorem CheckConstexprParameterTypes_first_non_literal:
  "(list_all literal_or_dependent pre \<and> \<not> isDependentType (ParamType PD)
      \<and> \<not> isLiteralType (ParamType PD)
     \<longrightarrow> CheckConstexprParameterTypes (FD\<lparr>Params := pre @ PD # post\<rparr>) st
         = (False,
            Report \<lparr>DiagLoc = ParamLocation PD, DiagId = err_constexpr_non_literal_param,
                    DiagArgs = [ArgType (ParamType PD), ArgUInt (length pre + 1),
                                ArgRange (ParamSourceRange PD),
                                ArgBool (isa_CXXConstructorDecl FD)],
                    FixIts = []\<rparr> st))
   \<and> (list_all literal_or_dependent (Params FD)
     \<longrightarrow> CheckConstexprParameterTypes FD st = (True, st))
   \<and> (isDependentType (ParamType PD)
     \<longrightarrow> fst (CheckConstexprParameterTypes (FD\<lparr>Params := pre @ PD # post\<rparr>) st)
           = fst (CheckConstexprParameterTypes (FD\<lparr>Params := pre @ post\<rparr>) st)
         \<and> CheckConstexprParameterTypes
             (FD\<lparr>Params := pre @ PD\<lparr>ParamType := (ParamType PD)\<lparr>isLiteralType := b\<rparr>\<rparr> # post\<rparr>) st
           = CheckConstexprParameterTypes (FD\<lparr>Params := pre @ PD # post\<rparr>) st)"
proof -
  have stops: "list_all literal_or_dependent pre \<and> \<not> isDependentType (ParamType PD)
      \<and> \<not> isLiteralType (ParamType PD)
     \<longrightarrow> CheckConstexprParameterTypes (FD\<lparr>Params := pre @ PD # post\<rparr>) st
         = (False,
            Report \<lparr>DiagLoc = ParamLocation PD, DiagId = err_constexpr_non_literal_param,
                    DiagArgs = [ArgType (ParamType PD), ArgUInt (length pre + 1),
                                ArgRange (ParamSourceRange PD),
                                ArgBool (isa_CXXConstructorDecl FD)],
                    FixIts = []\<rparr> st)"
    by (simp add: CheckConstexprParameterTypes_def loop_other_params loop_skips_prefix
          RequireLiteralType_def Diag_def)
  have passes: "list_all literal_or_dependent (Params FD)
     \<longrightarrow> CheckConstexprParameterTypes FD st = (True, st)"
    by (simp add: CheckConstexprParameterTypes_def loop_all_pass)
  have verdict: "isDependentType (ParamType PD)
     \<longrightarrow> fst (CheckConstexprParameterTypes (FD\<lparr>Params := pre @ PD # post\<rparr>) st)
           = fst (CheckConstexprParameterTypes (FD\<lparr>Params := pre @ post\<rparr>) st)"
    by (simp add: CheckConstexprParameterTypes_def loop_verdict literal_or_dependent_def)
  have skipped: "isDependentType (ParamType PD)
     \<longrightarrow> CheckConstexprParameterTypes
             (FD\<lparr>Params := pre @ PD\<lparr>ParamType := (ParamType PD)\<lparr>isLiteralType := b\<rparr>\<rparr> # post\<rparr>) st
           = CheckConstexprParameterTypes (FD\<lparr>Params := pre @ PD # post\<rparr>) st"
    by (simp add: CheckConstexprParameterTypes_def loop_other_params loop_dependent_unchecked)
  show ?thesis using stops passes verdict skipped by blast
qed

theorem CheckConstexprParameterTypes_first_non_literal_witness:
  "list_all literal_or_dependent [mk_param int_ty 310, mk_param T_ty 320]
   \<and> \<not> isDependentType (ParamType (mk_param string_ty 330))
   \<and> \<not> isLiteralType (ParamType (mk_param string_ty 330))
   \<and> CheckConstexprParameterTypes h_fn st0
       = (False,
          Report \<lparr>DiagLoc = 330, DiagId = err_constexpr_non_literal_param,
                  DiagArgs = [ArgType string_ty, ArgUInt 3,
                              ArgRange \<lparr>getBegin = 330, getEnd = 331\<rparr>, ArgBool False],
                  FixIts = []\<rparr> st0)
   \<and> list_all literal_or_dependent (Params square)
   \<and> CheckConstexprParameterTypes square st0 = (True, st0)
   \<and> isDependentType (ParamType (mk_param T_ty 320))
   \<and> fst (CheckConstexprParameterTypes
            (h_fn\<lparr>Params := [mk_param int_ty 310] @ mk_param T_ty 320 # [mk_param int_ty 340]\<rparr>)
            st0)
       = fst (CheckConstexprParameterTypes
            (h_fn\<lparr>Params := [mk_param int_ty 310] @ [mk_param int_ty 340]\<rparr>) st0)"
proof -
  have pre: "list_all literal_or_dependent [mk_param int_ty 310, mk_param T_ty 320]"
    and bad: "\<not> isDependentType (ParamType (mk_param string_ty 330))"
      "\<not> isLiteralType (ParamType (mk_param string_ty 330))"
    and sq: "list_all literal_or_dependent (Params square)"
    and dep: "isDependentType (ParamType (mk_param T_ty 320))"
    by (simp_all add: literal_or_dependent_def mk_param_def int_ty_def T_ty_def string_ty_def
          square_def)
  have h: "h_fn\<lparr>Params := [mk_param int_ty 310, mk_param T_ty 320]
                  @ mk_param string_ty 330 # [mk_param int_ty 340]\<rparr> = h_fn"
    by (simp add: h_fn_def)
  have vals: "ParamLocation (mk_param string_ty 330) = 330"
      "ParamType (mk_param string_ty 330) = string_ty"
      "ParamSourceRange (mk_param string_ty 330) = \<lparr>getBegin = 330, getEnd = 331\<rparr>"
      "isa_CXXConstructorDecl h_fn = False"
      "length [mk_param int_ty 310, mk_param T_ty 320] + 1 = 3"
    by (simp_all add: mk_param_def h_fn_def isa_CXXConstructorDecl_def)
  show ?thesis
    using CheckConstexprParameterTypes_first_non_literal
            [where pre = "[mk_param int_ty 310, mk_param T_ty 320]"
               and PD = "mk_param string_ty 330" and FD = h_fn
               and post = "[mk_param int_ty 340]" and st = st0]
          CheckConstexprParameterTypes_first_non_literal
            [where pre = "[]" and PD = "mk_param string_ty 330" and FD = square
               and post = "[]" and st = st0]
          CheckConstexprParameterTypes_first_non_literal
            [where pre = "[mk_param int_ty 310]" and PD = "mk_param T_ty 320" and FD = h_fn
               and post = "[mk_param int_ty 340]" and st = st0]
          pre bad sq dep
    unfolding h vals
    by simp
qed

section \<open>The statement checker\<close>
















section \<open>Whole runs\<close>

lemma VisitFunctionDecl_verdict:
  "VisitFunctionDecl C func body st =
     verdict_VisitFunctionDecl (isWrittenInMainFile C)
       (\<lambda>F. fst (CheckConstexprFunctionDecl C F))
       (\<lambda>F b. fst (CheckConstexprFunctionBody C F b)) func body st"
proof (cases "\<not> isWrittenInMainFile C (FuncBegin func) \<or> FunctionConstexpr st (FuncAddr func)
                \<or> isMain func")
  case True
  then show ?thesis
    using VisitFunctionDecl_skip [OF True] by (auto simp: verdict_VisitFunctionDecl_def)
next
  case False
  then show ?thesis
    by (simp add: VisitFunctionDecl_probed verdict_VisitFunctionDecl_def)
qed

lemma advances_refl: "advances st st"
  by (simp add: advances_def)

lemma advances_trans: "advances a b \<Longrightarrow> advances b c \<Longrightarrow> advances a c"
  by (auto simp: advances_def)

lemma settles_id: "settles (\<lambda>st. st)"
  by (simp add: settles_def advances_refl)

lemma settles_comp:
  assumes f: "settles f" and g: "settles g"
  shows "settles (\<lambda>st. g (f st))"
  unfolding settles_def
proof (intro allI conjI impI)
  fix st
  show "advances st (g (f st))"
    using f g advances_trans unfolding settles_def by blast
next
  fix st st'
  assume a: "advances (g (f st)) st'"
  have "advances (f st) (g (f st))" using g unfolding settles_def by blast
  then have "advances (f st) st'" using a advances_trans by blast
  then have "f st' = st'" using f unfolding settles_def by blast
  moreover have "g st' = st'" using g a unfolding settles_def by blast
  ultimately show "g (f st') = st'" by simp
qed

text \<open>
  One visit settles: a function it marked is skipped from then on, and a function it
  did not mark fails the same checks again, with diagnostics already enabled.
\<close>

lemma settles_VisitFunctionDecl: "settles (VisitFunctionDecl C func body)"
  unfolding settles_def
proof (intro allI conjI impI)
  fix st
  show "advances st (VisitFunctionDecl C func body st)"
    by (simp add: VisitFunctionDecl_verdict verdict_VisitFunctionDecl_def advances_def)
next
  fix st st'
  assume a: "advances (VisitFunctionDecl C func body st) st'"
  show "VisitFunctionDecl C func body st' = st'"
  proof (cases "isWrittenInMainFile C (FuncBegin func) \<and> \<not> isMain func
                  \<and> \<not> FunctionConstexpr st' (FuncAddr func)")
    case False
    then show ?thesis
      by (auto simp: VisitFunctionDecl_verdict verdict_VisitFunctionDecl_def)
  next
    case True
    have unmarked: "\<not> FunctionConstexpr (VisitFunctionDecl C func body st) (FuncAddr func)"
      using a True unfolding advances_def by blast
    have enabled: "\<not> SuppressAllDiagnostics st'"
      using a True unmarked unfolding advances_def
      by (auto simp: VisitFunctionDecl_verdict verdict_VisitFunctionDecl_def split: if_splits)
    have rejected: "\<not> (fst (CheckConstexprFunctionDecl C func)
        \<and> fst (CheckConstexprFunctionBody C func body)
        \<and> list_all literal_or_dependent (Params func))"
      using True unmarked
      by (auto simp: VisitFunctionDecl_verdict verdict_VisitFunctionDecl_def split: if_splits)
    have "VisitFunctionDecl C func body st' = st'\<lparr>SuppressAllDiagnostics := False\<rparr>"
      using True rejected
      by (auto simp: VisitFunctionDecl_verdict verdict_VisitFunctionDecl_def)
    also have "\<dots> = st'" using enabled by simp
    finally show ?thesis .
  qed
qed

lemma settles_no_VisitDeclStmt: "settles (no_VisitDeclStmt loc ds)"
  by (simp add: settles_def no_VisitDeclStmt_def advances_refl)

lemma settles_TraverseDecls:
  "(\<And>d. d \<in> set ds \<Longrightarrow> settles (TraverseDecl vf vs d)) \<Longrightarrow> settles (TraverseDecls vf vs ds)"
proof (induction ds)
  case Nil
  show ?case using settles_id by simp
next
  case (Cons d ds)
  have "settles (\<lambda>st. TraverseDecls vf vs ds (TraverseDecl vf vs d st))"
    by (rule settles_comp) (simp_all add: Cons)
  then show ?case by simp
qed

lemma settles_TraverseStmts:
  "(\<And>s. s \<in> set ss \<Longrightarrow> settles (TraverseStmt vf vs s)) \<Longrightarrow> settles (TraverseStmts vf vs ss)"
proof (induction ss)
  case Nil
  show ?case using settles_id by simp
next
  case (Cons s ss)
  have "settles (\<lambda>st. TraverseStmts vf vs ss (TraverseStmt vf vs s st))"
    by (rule settles_comp) (simp_all add: Cons)
  then show ?case by simp
qed

lemma settles_Traverse:
  assumes vf: "\<And>F b. settles (vf F b)" and vs: "\<And>loc ds. settles (vs loc ds)"
  shows "settles (TraverseStmt vf vs s)" and "settles (TraverseDecl vf vs d)"
proof (induction s and d)
  case (DeclStmt loc ds)
  have "settles (\<lambda>st. TraverseDecls vf vs ds (vs loc ds st))"
    by (rule settles_comp) (simp_all add: vs settles_TraverseDecls DeclStmt)
  then show ?case by simp
next
  case (CompoundStmt ss)
  then show ?case using settles_TraverseStmts [of ss vf vs] by simp
next
  case (OtherStmt ss)
  then show ?case using settles_TraverseStmts [of ss vf vs] by simp
next
  case (FunctionD F body)
  show ?case
  proof (cases body)
    case None
    then show ?thesis using vf [of F None] by (simp add: settles_def)
  next
    case (Some b)
    have "settles (\<lambda>st. TraverseStmt vf vs b (vf F (Some b) st))"
      by (rule settles_comp) (simp_all add: vf FunctionD Some)
    then show ?thesis using Some by simp
  qed
next
  case (VarD VD)
  show ?case using settles_id by (simp add: settles_def)
next
  case (TypedefNameD k TN)
  show ?case using settles_id by (simp add: settles_def)
next
  case (TagD k isDefinition ms)
  then show ?case using settles_TraverseDecls [of ms vf vs] by simp
next
  case (OtherD k ms)
  then show ?case using settles_TraverseDecls [of ms vf vs] by simp
qed

text \<open>
  Claim C7. Running the function visitor over the translation unit again, in the state
  the first run left, changes nothing: no diagnostic is added, no flag is changed, and
  suppression stays as it was. This holds for every tree, nested functions included, and
  for every compiler instance and initial state.
\<close>

theorem functionVisitor_idempotent:
  "functionVisitor C tu (functionVisitor C tu st) = functionVisitor C tu st"
proof -
  have "settles (functionVisitor C tu)"
    unfolding functionVisitor_def
    by (rule settles_Traverse(2)) (rule settles_VisitFunctionDecl settles_no_VisitDeclStmt)+
  then show ?thesis
    using advances_refl unfolding settles_def by blast
qed

text \<open>
  Claim C9. The run of the program on a translation unit is the run of the second
  visitor, the one written from the file test and the verdicts of the declaration rules,
  the body rules and the parameter types alone. Nothing else enters: neither the
  diagnostics the services send, nor the language options, nor any answer of
  \<^verbatim>\<open>CheckConstexprDeclStmt\<close>, which neither visitor calls.
\<close>

theorem HandleTranslationUnit_determined_by_verdicts:
  "HandleTranslationUnit C tu st =
     verdict_HandleTranslationUnit (isWrittenInMainFile C)
       (\<lambda>F. fst (CheckConstexprFunctionDecl C F))
       (\<lambda>F b. fst (CheckConstexprFunctionBody C F b)) tu st"
proof -
  have function_pass: "VisitFunctionDecl C =
     verdict_VisitFunctionDecl (isWrittenInMainFile C)
       (\<lambda>F. fst (CheckConstexprFunctionDecl C F))
       (\<lambda>F b. fst (CheckConstexprFunctionBody C F b))"
    by (intro ext) (rule VisitFunctionDecl_verdict)
  have variable_pass: "VarDecl_VisitFunctionDecl C =
     (\<lambda>func body st.
        if \<not> isWrittenInMainFile C (FuncBegin func) then st
        else if FunctionConstexpr st (FuncAddr func) then st
        else vd_TraverseFunctionDecl func body st)"
    by (intro ext) (simp add: VarDecl_VisitFunctionDecl_def Let_def)
  show ?thesis
    unfolding HandleTranslationUnit_def verdict_HandleTranslationUnit_def functionVisitor_def
      varDeclVisitor_def function_pass variable_pass ..
qed

theorem HandleTranslationUnit_determined_by_verdicts_witness:
  "HandleTranslationUnit C_spec tu_nested st0 =
     verdict_HandleTranslationUnit (\<lambda>L. L < 1000) (\<lambda>F. True)
       (\<lambda>F b. fst (CheckConstexprFunctionBody C_spec F b)) tu_nested st0"
proof -
  have "isWrittenInMainFile C_spec = (\<lambda>L. L < 1000)"
      "(\<lambda>F. fst (CheckConstexprFunctionDecl C_spec F)) = (\<lambda>F. True)"
    by (simp_all add: C_spec_def C0_def)
  then show ?thesis
    using HandleTranslationUnit_determined_by_verdicts [of C_spec tu_nested st0] by simp
qed

lemma functionVisitor_tu_nested:
  "functionVisitor C0 tu_nested st0 =
     st0\<lparr>FunctionConstexpr := (FunctionConstexpr st0)(15 := True),
         Reported := [function_warning 120]\<rparr>"
  by (simp add: functionVisitor_def tu_nested_def VisitFunctionDecl_def Let_def probe_def
        callSema_def CheckConstexprParameterTypes_def RequireLiteralType_def Diag_def
        Report_def setSuppressAllDiagnostics_def setConstexpr_def no_VisitDeclStmt_def
        g_fn_def outer_fn_def st0_def C0_def mk_param_def string_ty_def)

lemma HandleTranslationUnit_tu_nested:
  "HandleTranslationUnit C0 tu_nested st0 =
     st0\<lparr>FunctionConstexpr := (FunctionConstexpr st0)(15 := True),
         Reported := [function_warning 120, variable_warning 130]\<rparr>"
  unfolding HandleTranslationUnit_def functionVisitor_tu_nested
  by (simp add: varDeclVisitor_def tu_nested_def VarDecl_VisitFunctionDecl_def Let_def
        vd_TraverseFunctionDecl_def VisitDeclStmt_def isSingleDecl_def
        no_VisitFunctionDecl_def no_VisitDeclStmt_def Report_def
        g_fn_def outer_fn_def st0_def C0_def n_var_def)

text \<open>
  The guard of the variable pass itself: called on a function whose flag is set, or on a
  function outside the main file, the visitor starts no inner walk.
\<close>

lemma VarDecl_VisitFunctionDecl_guard:
  "\<not> isWrittenInMainFile C (FuncBegin func) \<or> FunctionConstexpr st (FuncAddr func)
   \<Longrightarrow> VarDecl_VisitFunctionDecl C func body st = st"
  by (auto simp: VarDecl_VisitFunctionDecl_def Let_def)

text \<open>
  Claim C2. The visitor of the variable pass tests the constexpr flag of the function it
  visits, but the inner visitor it starts walks the whole of that function, and with it
  every function declared inside. In the example, \<^verbatim>\<open>outer\<close> stays non-constexpr, the
  member function \<^verbatim>\<open>g\<close> of its local class is marked constexpr by the function pass
  (it was not constexpr before), and the variable pass of the same run still reports
  "variable can be constexpr" for the local \<^verbatim>\<open>n\<close> of \<^verbatim>\<open>g\<close>, at location 130.
\<close>

theorem variable_pass_enters_nested_constexpr_function:
  "\<not> FunctionConstexpr st0 (FuncAddr g_fn)
   \<and> FunctionConstexpr (functionVisitor C0 tu_nested st0) (FuncAddr g_fn)
   \<and> \<not> FunctionConstexpr (functionVisitor C0 tu_nested st0) (FuncAddr outer_fn)
   \<and> Reported (functionVisitor C0 tu_nested st0)
       = [\<lparr>DiagLoc = 120, DiagId = CustomDiagID Warning ''function can be constexpr'',
            DiagArgs = [],
            FixIts = [\<lparr>InsertionLoc = 120, CodeToInsert = ''constexpr ''\<rparr>]\<rparr>]
   \<and> Reported (HandleTranslationUnit C0 tu_nested st0)
       = [\<lparr>DiagLoc = 120, DiagId = CustomDiagID Warning ''function can be constexpr'',
            DiagArgs = [],
            FixIts = [\<lparr>InsertionLoc = 120, CodeToInsert = ''constexpr ''\<rparr>]\<rparr>,
          \<lparr>DiagLoc = 130, DiagId = CustomDiagID Warning ''variable can be constexpr'',
            DiagArgs = [],
            FixIts = [\<lparr>InsertionLoc = 130, CodeToInsert = ''constexpr ''\<rparr>]\<rparr>]"
  unfolding HandleTranslationUnit_tu_nested functionVisitor_tu_nested
  by (simp add: function_warning_def variable_warning_def CreateInsertion_def
        st0_def g_fn_def outer_fn_def)

lemma functionVisitor_tu_main: "functionVisitor C0 tu_main st0 = st0"
  by (simp add: functionVisitor_def tu_main_def VisitFunctionDecl_def Let_def
        no_VisitDeclStmt_def main_fn_def st0_def C0_def)

lemma HandleTranslationUnit_tu_main:
  "HandleTranslationUnit C0 tu_main st0 = st0\<lparr>Reported := [variable_warning 210]\<rparr>"
  unfolding HandleTranslationUnit_def functionVisitor_tu_main
  by (simp add: varDeclVisitor_def tu_main_def VarDecl_VisitFunctionDecl_def Let_def
        vd_TraverseFunctionDecl_def VisitDeclStmt_def isSingleDecl_def
        no_VisitFunctionDecl_def no_VisitDeclStmt_def Report_def
        main_fn_def st0_def C0_def n_var_def m_var_def)

text \<open>
  Claim C10. In the example, \<^verbatim>\<open>main\<close> lies in the main file; the function pass
  leaves the state as it was, so \<^verbatim>\<open>main\<close> is not constexpr and gets no diagnostic of
  its own; and the whole run reports exactly one diagnostic, the warning "variable can be
  constexpr" with the fix-it inserting \<^verbatim>\<open>constexpr \<close> at the statement that declares
  the local \<^verbatim>\<open>m\<close> of \<^verbatim>\<open>main\<close>.
\<close>

theorem entry_point_locals_get_suggestions:
  "isMain main_fn \<and> isWrittenInMainFile C0 (FuncBegin main_fn)
   \<and> functionVisitor C0 tu_main st0 = st0
   \<and> \<not> FunctionConstexpr (functionVisitor C0 tu_main st0) (FuncAddr main_fn)
   \<and> Reported (HandleTranslationUnit C0 tu_main st0)
       = [\<lparr>DiagLoc = 210, DiagId = CustomDiagID Warning ''variable can be constexpr'',
            DiagArgs = [],
            FixIts = [\<lparr>InsertionLoc = 210, CodeToInsert = ''constexpr ''\<rparr>]\<rparr>]"
  unfolding HandleTranslationUnit_tu_main functionVisitor_tu_main
  by (simp add: variable_warning_def CreateInsertion_def main_fn_def st0_def C0_def)

end
